theory Spec2Isabelle
  imports Complex_Main
begin

section \<open>Values of the program\<close>

text \<open>
  The model is \<^verbatim>\<open>src/nlpy/model/nlp.py\<close>, class \<^verbatim>\<open>NLPModel\<close>. The bound vectors
  hold double-precision numbers. The program only compares them (\<^verbatim>\<open>>, <, ==, <=\<close>) and
  never does arithmetic on them, so a number is modelled by its exact value: a real, one
  of the two infinities, or not-a-number. Comparison with not-a-number is false, as in
  IEEE 754.
\<close>

datatype pyfloat = FNum real | FPosInf | FNegInf | FNaN

fun float_lt :: "pyfloat \<Rightarrow> pyfloat \<Rightarrow> bool" where
  "float_lt FNaN _ = False"
| "float_lt _ FNaN = False"
| "float_lt (FNum a) (FNum b) = (a < b)"
| "float_lt (FNum a) FPosInf = True"
| "float_lt (FNum a) FNegInf = False"
| "float_lt FNegInf (FNum b) = True"
| "float_lt FNegInf FPosInf = True"
| "float_lt FNegInf FNegInf = False"
| "float_lt FPosInf _ = False"

definition float_gt :: "pyfloat \<Rightarrow> pyfloat \<Rightarrow> bool" where
  "float_gt a b = float_lt b a"

definition float_eq :: "pyfloat \<Rightarrow> pyfloat \<Rightarrow> bool" where
  "float_eq a b = (a \<noteq> FNaN \<and> b \<noteq> FNaN \<and> a = b)"

definition float_le :: "pyfloat \<Rightarrow> pyfloat \<Rightarrow> bool" where
  "float_le a b = (float_lt a b \<or> float_eq a b)"

fun float_neg :: "pyfloat \<Rightarrow> pyfloat" where
  "float_neg (FNum a) = FNum (- a)"
| "float_neg FPosInf = FNegInf"
| "float_neg FNegInf = FPosInf"
| "float_neg FNaN = FNaN"

text \<open>
  A residual returned by \<^verbatim>\<open>OptimalityResiduals\<close> is a number or \<^verbatim>\<open>None\<close>.
\<close>

datatype pyval = PyNone | PyFloat pyfloat

datatype error = IndexError | ValueError | TypeError

definition bind_err :: "error + 'a \<Rightarrow> ('a \<Rightarrow> error + 'b) \<Rightarrow> error + 'b" where
  "bind_err r f = (case r of Inl e \<Rightarrow> Inl e | Inr v \<Rightarrow> f v)"

text \<open>
  The source is Python 2 (\<^verbatim>\<open>range\<close> builds the list stored in \<^verbatim>\<open>nln\<close>). There,
  \<^verbatim>\<open>None\<close> is ordered below every other object, so \<^verbatim>\<open>None <= v\<close> is true for every
  \<^verbatim>\<open>v\<close>. Python 3 raises \<^verbatim>\<open>TypeError\<close> on the same comparison. The comparison takes the
  language version, so that both readings of the source are covered.
\<close>

datatype pyver = Py2 | Py3

fun py_le :: "pyver \<Rightarrow> pyval \<Rightarrow> pyval \<Rightarrow> error + bool" where
  "py_le _ (PyFloat a) (PyFloat b) = Inr (float_le a b)"
| "py_le Py2 PyNone _ = Inr True"
| "py_le Py2 (PyFloat a) PyNone = Inr False"
| "py_le Py3 _ _ = Inl TypeError"

text \<open>
  \<^verbatim>\<open>a and b\<close> evaluates \<^verbatim>\<open>b\<close> only when \<^verbatim>\<open>a\<close> is true; an exception in \<^verbatim>\<open>a\<close>
  propagates.
\<close>

definition py_and :: "error + bool \<Rightarrow> error + bool \<Rightarrow> error + bool" where
  "py_and a b = bind_err a (\<lambda>x. if x then b else Inr False)"

subsection \<open>Sequences\<close>

definition py_len :: "'a list \<Rightarrow> int" where
  "py_len xs = int (length xs)"

text \<open>\<^verbatim>\<open>range(k)\<close>: the integers \<open>0, ..., k - 1\<close>, empty when \<open>k \<le> 0\<close>.\<close>

definition py_range :: "int \<Rightarrow> int list" where
  "py_range k = map int [0..<nat k]"

text \<open>
  \<^verbatim>\<open>xs[i]\<close>: a negative index counts from the end; an index outside the sequence
  raises \<^verbatim>\<open>IndexError\<close>.
\<close>

definition getitem :: "'a list \<Rightarrow> int \<Rightarrow> error + 'a" where
  "getitem xs i =
     (let k = py_len xs; j = (if i < 0 then k + i else i)
      in if 0 \<le> j \<and> j < k then Inr (xs ! nat j) else Inl IndexError)"

text \<open>
  \<^verbatim>\<open>numpy.zeros(k, 'd')\<close> and \<^verbatim>\<open>numpy.ones(k, 'd')\<close> raise \<^verbatim>\<open>ValueError\<close> on a negative
  dimension.
\<close>

definition numpy_zeros :: "int \<Rightarrow> error + pyfloat list" where
  "numpy_zeros k = (if k < 0 then Inl ValueError else Inr (replicate (nat k) (FNum 0)))"

definition numpy_ones :: "int \<Rightarrow> error + pyfloat list" where
  "numpy_ones k = (if k < 0 then Inl ValueError else Inr (replicate (nat k) (FNum 1)))"

text \<open>
  \<^verbatim>\<open>c * numpy.ones(k, 'd')\<close> for the sentinel \<^verbatim>\<open>c\<close>: every entry is \<^verbatim>\<open>c * 1.0\<close>,
  which is \<^verbatim>\<open>c\<close> itself.
\<close>

definition scaled_ones :: "pyfloat \<Rightarrow> int \<Rightarrow> error + pyfloat list" where
  "scaled_ones c k = bind_err (numpy_ones k) (\<lambda>v. Inr (map (\<lambda>_. c) v))"

section \<open>The model object\<close>

record NLPModel =
  n :: int
  m :: int
  name :: string
  Infinity :: pyfloat
  negInfinity :: pyfloat
  zero :: pyfloat
  one :: pyfloat
  x0 :: "pyfloat list"
  pi0 :: "pyfloat list"
  Lvar :: "pyfloat list"
  Uvar :: "pyfloat list"
  Lcon :: "pyfloat list"
  Ucon :: "pyfloat list"
  lin :: "int list"
  nln :: "int list"
  net :: "int list"
  nlin :: int
  nnln :: int
  nnet :: int
  rangeC :: "int list"
  lowerC :: "int list"
  upperC :: "int list"
  equalC :: "int list"
  freeC :: "int list"
  nlowerC :: int
  nrangeC :: int
  nupperC :: int
  nequalC :: int
  nfreeC :: int
  rangeB :: "int list"
  lowerB :: "int list"
  upperB :: "int list"
  fixedB :: "int list"
  freeB :: "int list"
  nlowerB :: int
  nrangeB :: int
  nupperB :: int
  nfixedB :: int
  nfreeB :: int
  nbounds :: int
  stop_d :: pyfloat
  stop_c :: pyfloat
  stop_p :: pyfloat
  feval :: int
  geval :: int
  Heval :: int
  Hprod :: int
  ceval :: int
  Jeval :: int
  Jprod :: int

section \<open>Classification of bounds\<close>

text \<open>
  The two loops of \<^verbatim>\<open>__init__\<close> (lines 103-114 over \<^verbatim>\<open>Lcon, Ucon\<close>, lines 129-140
  over \<^verbatim>\<open>Lvar, Uvar\<close>) are the same code up to the names of the five lists they append
  to. They are modelled once, over the five lists of one loop; \<open>cls_equal\<close> stands
  for \<^verbatim>\<open>equalC\<close> in the first loop and for \<^verbatim>\<open>fixedB\<close> in the second.
\<close>

record bound_classes =
  cls_range :: "int list"
  cls_lower :: "int list"
  cls_upper :: "int list"
  cls_equal :: "int list"
  cls_free :: "int list"

definition no_classes :: bound_classes where
  "no_classes = \<lparr>cls_range = [], cls_lower = [], cls_upper = [], cls_equal = [], cls_free = []\<rparr>"

text \<open>
  The \<^verbatim>\<open>elif ... elif ... else\<close> part of the loop body, reached when the first
  condition is false. Each condition reads the vectors again.
\<close>

definition classify_elif ::
  "pyfloat \<Rightarrow> pyfloat \<Rightarrow> pyfloat list \<Rightarrow> pyfloat list \<Rightarrow> int \<Rightarrow> bound_classes
    \<Rightarrow> error + bound_classes" where
  "classify_elif ninf pinf L U i st =
     bind_err (getitem L i) (\<lambda>l.
       if float_gt l ninf then Inr (st\<lparr>cls_lower := cls_lower st @ [i]\<rparr>)
       else bind_err (getitem U i) (\<lambda>u.
         if float_lt u pinf then Inr (st\<lparr>cls_upper := cls_upper st @ [i]\<rparr>)
         else Inr (st\<lparr>cls_free := cls_free st @ [i]\<rparr>)))"

text \<open>
  The loop body. In \<^verbatim>\<open>L[i] > negInfinity and U[i] < Infinity\<close> the second comparison is
  evaluated only when the first is true.
\<close>

definition classify_index ::
  "pyfloat \<Rightarrow> pyfloat \<Rightarrow> pyfloat list \<Rightarrow> pyfloat list \<Rightarrow> int \<Rightarrow> bound_classes
    \<Rightarrow> error + bound_classes" where
  "classify_index ninf pinf L U i st =
     bind_err (getitem L i) (\<lambda>l.
       if float_gt l ninf then
         bind_err (getitem U i) (\<lambda>u.
           if float_lt u pinf then
             bind_err (getitem L i) (\<lambda>l'.
               bind_err (getitem U i) (\<lambda>u'.
                 if float_eq l' u' then Inr (st\<lparr>cls_equal := cls_equal st @ [i]\<rparr>)
                 else Inr (st\<lparr>cls_range := cls_range st @ [i]\<rparr>)))
           else classify_elif ninf pinf L U i st)
       else classify_elif ninf pinf L U i st)"

text \<open>The \<^verbatim>\<open>for\<close> loop over the list of indices; an exception ends it.\<close>

fun classify_loop ::
  "pyfloat \<Rightarrow> pyfloat \<Rightarrow> pyfloat list \<Rightarrow> pyfloat list \<Rightarrow> int list \<Rightarrow> bound_classes
    \<Rightarrow> error + bound_classes" where
  "classify_loop ninf pinf L U [] st = Inr st"
| "classify_loop ninf pinf L U (i # rest) st =
     bind_err (classify_index ninf pinf L U i st) (\<lambda>st'. classify_loop ninf pinf L U rest st')"

section \<open>Construction\<close>

text \<open>
  \<^verbatim>\<open>kwargs\<close> is a dictionary from names to vectors. A vector given by the caller is
  stored as it is; a missing one gets its default. \<^verbatim>\<open>__init__\<close> assigns the attributes
  in the order of the record; the model computes the values in that order, so that the
  first statement that raises decides the error, and builds the object at the end. The
  tolerance \<^verbatim>\<open>math.pow(10.0, -6.0)\<close> is the number \<open>1e-6\<close>.
\<close>

definition kwarg_or ::
  "(string \<rightharpoonup> pyfloat list) \<Rightarrow> string \<Rightarrow> error + pyfloat list \<Rightarrow> error + pyfloat list" where
  "kwarg_or kwargs key dflt = (case kwargs key of Some v \<Rightarrow> Inr v | None \<Rightarrow> dflt)"

definition NLPModel_init ::
  "int \<Rightarrow> int \<Rightarrow> string \<Rightarrow> (string \<rightharpoonup> pyfloat list) \<Rightarrow> error + NLPModel" where
  "NLPModel_init nv mv nm kwargs =
     (let pinf = FNum (10 ^ 20); ninf = float_neg pinf in
      bind_err (kwarg_or kwargs ''x0'' (numpy_zeros nv)) (\<lambda>x0v.
      bind_err (kwarg_or kwargs ''pi0'' (numpy_zeros mv)) (\<lambda>pi0v.
      bind_err (kwarg_or kwargs ''Lvar'' (scaled_ones ninf nv)) (\<lambda>Lvarv.
      bind_err (kwarg_or kwargs ''Uvar'' (scaled_ones pinf nv)) (\<lambda>Uvarv.
      bind_err (kwarg_or kwargs ''Lcon'' (scaled_ones ninf mv)) (\<lambda>Lconv.
      bind_err (kwarg_or kwargs ''Ucon'' (scaled_ones pinf mv)) (\<lambda>Uconv.
      let linv = []; nlnv = py_range mv; netv = [] in
      bind_err (classify_loop ninf pinf Lconv Uconv (py_range mv) no_classes) (\<lambda>cc.
      bind_err (classify_loop ninf pinf Lvarv Uvarv (py_range nv) no_classes) (\<lambda>cb.
      Inr \<lparr>n = nv, m = mv, name = nm,
           Infinity = pinf, negInfinity = ninf, zero = FNum 0, one = FNum 1,
           x0 = x0v, pi0 = pi0v, Lvar = Lvarv, Uvar = Uvarv, Lcon = Lconv, Ucon = Uconv,
           lin = linv, nln = nlnv, net = netv,
           nlin = py_len linv, nnln = py_len nlnv, nnet = py_len netv,
           rangeC = cls_range cc, lowerC = cls_lower cc, upperC = cls_upper cc,
           equalC = cls_equal cc, freeC = cls_free cc,
           nlowerC = py_len (cls_lower cc), nrangeC = py_len (cls_range cc),
           nupperC = py_len (cls_upper cc), nequalC = py_len (cls_equal cc),
           nfreeC = py_len (cls_free cc),
           rangeB = cls_range cb, lowerB = cls_lower cb, upperB = cls_upper cb,
           fixedB = cls_equal cb, freeB = cls_free cb,
           nlowerB = py_len (cls_lower cb), nrangeB = py_len (cls_range cb),
           nupperB = py_len (cls_upper cb), nfixedB = py_len (cls_equal cb),
           nfreeB = py_len (cls_free cb),
           nbounds = nv - py_len (cls_free cb),
           stop_d = FNum (1 / 10 ^ 6), stop_c = FNum (1 / 10 ^ 6), stop_p = FNum (1 / 10 ^ 6),
           feval = 0, geval = 0, Heval = 0, Hprod = 0, ceval = 0, Jeval = 0,
           Jprod = 0\<rparr>)))))))))"

section \<open>Counters and the optimality test\<close>

text \<open>\<^verbatim>\<open>ResetCounters\<close> assigns seven attributes of \<^verbatim>\<open>self\<close> and returns \<^verbatim>\<open>None\<close>.\<close>

definition ResetCounters :: "NLPModel \<Rightarrow> unit \<times> NLPModel" where
  "ResetCounters self =
     ((), self\<lparr>feval := 0, geval := 0, Heval := 0, Hprod := 0, ceval := 0, Jeval := 0,
               Jprod := 0\<rparr>)"

text \<open>
  \<^verbatim>\<open>OptimalityResiduals\<close> of the base class ignores its arguments. A subclass
  overrides it, so \<^verbatim>\<open>AtOptimality\<close> takes the method it calls as an argument. The
  keyword arguments are only passed on to that method and are left out.
\<close>

definition OptimalityResiduals :: "NLPModel \<Rightarrow> 'x \<Rightarrow> 'z \<Rightarrow> pyval \<times> pyval \<times> pyval" where
  "OptimalityResiduals self x z = (PyNone, PyNone, PyNone)"

definition AtOptimality ::
  "pyver \<Rightarrow> (NLPModel \<Rightarrow> 'x \<Rightarrow> 'z \<Rightarrow> pyval \<times> pyval \<times> pyval) \<Rightarrow> NLPModel \<Rightarrow> 'x \<Rightarrow> 'z
    \<Rightarrow> error + bool" where
  "AtOptimality ver residuals self x z =
     (case residuals self x z of (d, c, p) \<Rightarrow>
        bind_err
          (py_and (py_le ver d (PyFloat (stop_d self)))
             (py_and (py_le ver c (PyFloat (stop_c self)))
                (py_le ver p (PyFloat (stop_p self)))))
          (\<lambda>b. if b then Inr True else Inr False))"

section \<open>Auxiliary notions for the proofs\<close>

text \<open>
  The five lists of a loop are indexed by the kind of bound they collect, so that one
  lemma speaks about all of them. \<open>kind_of\<close> is the decision of the loop body on the two
  values it read; lemma \<open>classify_index_kind\<close> below shows that the loop body appends
  the index to the list of that kind and to no other list.
\<close>

datatype bound_kind = KRange | KLower | KUpper | KEqual | KFree

definition kind_of :: "pyfloat \<Rightarrow> pyfloat \<Rightarrow> pyfloat \<Rightarrow> pyfloat \<Rightarrow> bound_kind" where
  "kind_of ninf pinf l u =
     (if float_gt l ninf \<and> float_lt u pinf then (if float_eq l u then KEqual else KRange)
      else if float_gt l ninf then KLower
      else if float_lt u pinf then KUpper
      else KFree)"

fun members :: "bound_kind \<Rightarrow> bound_classes \<Rightarrow> int list" where
  "members KRange st = cls_range st"
| "members KLower st = cls_lower st"
| "members KUpper st = cls_upper st"
| "members KEqual st = cls_equal st"
| "members KFree st = cls_free st"

fun add_index :: "bound_kind \<Rightarrow> int \<Rightarrow> bound_classes \<Rightarrow> bound_classes" where
  "add_index KRange i st = st\<lparr>cls_range := cls_range st @ [i]\<rparr>"
| "add_index KLower i st = st\<lparr>cls_lower := cls_lower st @ [i]\<rparr>"
| "add_index KUpper i st = st\<lparr>cls_upper := cls_upper st @ [i]\<rparr>"
| "add_index KEqual i st = st\<lparr>cls_equal := cls_equal st @ [i]\<rparr>"
| "add_index KFree i st = st\<lparr>cls_free := cls_free st @ [i]\<rparr>"

definition constraint_classes :: "NLPModel \<Rightarrow> bound_classes" where
  "constraint_classes self =
     \<lparr>cls_range = rangeC self, cls_lower = lowerC self, cls_upper = upperC self,
      cls_equal = equalC self, cls_free = freeC self\<rparr>"

definition variable_classes :: "NLPModel \<Rightarrow> bound_classes" where
  "variable_classes self =
     \<lparr>cls_range = rangeB self, cls_lower = lowerB self, cls_upper = upperB self,
      cls_equal = fixedB self, cls_free = freeB self\<rparr>"

text \<open>Keyword arguments of three constructions on which the theorems are instantiated.\<close>

definition example_kwargs :: "string \<rightharpoonup> pyfloat list" where
  "example_kwargs =
     [''Lcon'' \<mapsto> [FNum 5, FNum 0, FNum (- (10 ^ 20)), FNum 0],
      ''Ucon'' \<mapsto> [FNum 5, FNum 10, FNum 10, FNum 1],
      ''Lvar'' \<mapsto> [FNum 1],
      ''Uvar'' \<mapsto> [FNum (10 ^ 20)]]"

definition sentinel_kwargs :: "string \<rightharpoonup> pyfloat list" where
  "sentinel_kwargs =
     [''Lcon'' \<mapsto> [FNum (10 ^ 20), FNum (- (10 ^ 20))],
      ''Ucon'' \<mapsto> [FNum (10 ^ 20), FNum (- (10 ^ 20))],
      ''Lvar'' \<mapsto> [FNum (10 ^ 20), FNum (- (10 ^ 20))],
      ''Uvar'' \<mapsto> [FNum (10 ^ 20), FNum (- (10 ^ 20))]]"

definition inverted_kwargs :: "string \<rightharpoonup> pyfloat list" where
  "inverted_kwargs =
     [''Lcon'' \<mapsto> [FNum 10], ''Ucon'' \<mapsto> [FNum 0],
      ''Lvar'' \<mapsto> [FNum 3], ''Uvar'' \<mapsto> [FNum (- 3)]]"

section \<open>The loop body and the loop\<close>

lemma getitem_nonneg:
  "0 \<le> i \<Longrightarrow> getitem xs i = (if i < int (length xs) then Inr (xs ! nat i) else Inl IndexError)"
  by (simp add: getitem_def py_len_def Let_def)

lemma classify_index_kind:
  "classify_index ninf pinf L U i st =
     bind_err (getitem L i) (\<lambda>l. bind_err (getitem U i) (\<lambda>u.
       Inr (add_index (kind_of ninf pinf l u) i st)))"
  by (cases "getitem L i"; cases "getitem U i")
     (simp_all add: classify_index_def classify_elif_def bind_err_def kind_of_def)

lemma members_add_index:
  "members k (add_index k' i st) = members k st @ (if k = k' then [i] else [])"
  by (cases k; cases k') simp_all

lemma classify_index_Inr:
  assumes "classify_index ninf pinf L U i st = Inr st'" and "0 \<le> i"
  shows "i < int (length L) \<and> i < int (length U) \<and>
         st' = add_index (kind_of ninf pinf (L ! nat i) (U ! nat i)) i st"
  using assms
  by (auto simp: classify_index_kind getitem_nonneg bind_err_def split: if_splits)

lemma classify_loop_members:
  assumes "classify_loop ninf pinf L U js st = Inr st'" and "\<forall>i\<in>set js. 0 \<le> i"
  shows "(\<forall>i\<in>set js. i < int (length L) \<and> i < int (length U)) \<and>
         (\<forall>k. members k st' =
            members k st @ filter (\<lambda>i. kind_of ninf pinf (L ! nat i) (U ! nat i) = k) js)"
  using assms
proof (induction js arbitrary: st)
  case Nil
  then show ?case by simp
next
  case (Cons j js)
  from Cons.prems(1) obtain st1 where
    s1: "classify_index ninf pinf L U j st = Inr st1" and
    s2: "classify_loop ninf pinf L U js st1 = Inr st'"
    by (auto simp: bind_err_def split: sum.splits)
  from Cons.prems(2) have j0: "0 \<le> j" and js0: "\<forall>i\<in>set js. 0 \<le> i" by simp_all
  note a = classify_index_Inr [OF s1 j0]
  note b = Cons.IH [OF s2 js0]
  show ?case using a b by (simp add: members_add_index)
qed

lemma classify_loop_total:
  assumes "\<forall>i\<in>set js. 0 \<le> i \<and> i < int (length L) \<and> i < int (length U)"
  shows "\<exists>st'. classify_loop ninf pinf L U js st = Inr st'"
  using assms
  by (induction js arbitrary: st)
     (simp_all add: classify_index_kind getitem_nonneg bind_err_def)

lemma set_py_range: "set (py_range k) = {i. 0 \<le> i \<and> i < k}"
  apply (auto simp: py_range_def)
  subgoal for i by (rule image_eqI[of _ _ "nat i"]) auto
  done

lemma sorted_py_range: "sorted_wrt (<) (py_range k)"
  by (simp add: py_range_def sorted_wrt_map)

lemma length_py_range: "int (length (py_range k)) = max 0 k"
  by (simp add: py_range_def)

lemma length_kinds:
  "length (filter (\<lambda>i. f i = KEqual) xs) + length (filter (\<lambda>i. f i = KRange) xs) +
   length (filter (\<lambda>i. f i = KLower) xs) + length (filter (\<lambda>i. f i = KUpper) xs) +
   length (filter (\<lambda>i. f i = KFree) xs) = length xs"
proof (induction xs)
  case Nil
  then show ?case by simp
next
  case (Cons x xs)
  then show ?case by (cases "f x") simp_all
qed

lemma bind_err_Inr:
  "bind_err r f = Inr y \<longleftrightarrow> (\<exists>v. r = Inr v \<and> f v = Inr y)"
  by (cases r) (simp_all add: bind_err_def)

lemma init_Inr_dims:
  assumes "NLPModel_init nv mv nm kwargs = Inr self"
  shows "n self = nv" and "m self = mv"
    and "Infinity self = FNum (10 ^ 20)" and "negInfinity self = FNum (- (10 ^ 20))"
  using assms
  unfolding NLPModel_init_def Let_def bind_err_Inr
  by auto

lemma init_Inr_loops:
  assumes "NLPModel_init nv mv nm kwargs = Inr self"
  shows "classify_loop (FNum (- (10 ^ 20))) (FNum (10 ^ 20)) (Lcon self) (Ucon self)
           (py_range mv) no_classes = Inr (constraint_classes self)"
    and "classify_loop (FNum (- (10 ^ 20))) (FNum (10 ^ 20)) (Lvar self) (Uvar self)
           (py_range nv) no_classes = Inr (variable_classes self)"
  using assms
  unfolding NLPModel_init_def Let_def bind_err_Inr constraint_classes_def variable_classes_def
  by auto

lemma init_Inr_counts:
  assumes "NLPModel_init nv mv nm kwargs = Inr self"
  shows "nbounds self = n self - nfreeB self"
    and "nequalC self = py_len (equalC self)" and "nrangeC self = py_len (rangeC self)"
    and "nlowerC self = py_len (lowerC self)" and "nupperC self = py_len (upperC self)"
    and "nfreeC self = py_len (freeC self)"
    and "nfixedB self = py_len (fixedB self)" and "nrangeB self = py_len (rangeB self)"
    and "nlowerB self = py_len (lowerB self)" and "nupperB self = py_len (upperB self)"
    and "nfreeB self = py_len (freeB self)"
  using assms
  unfolding NLPModel_init_def Let_def bind_err_Inr
  by auto

lemma init_Inr_kwargs:
  assumes "NLPModel_init nv mv nm kwargs = Inr self"
  shows "kwarg_or kwargs ''Lvar'' (scaled_ones (FNum (- (10 ^ 20))) nv) = Inr (Lvar self)"
    and "kwarg_or kwargs ''Uvar'' (scaled_ones (FNum (10 ^ 20)) nv) = Inr (Uvar self)"
    and "kwarg_or kwargs ''Lcon'' (scaled_ones (FNum (- (10 ^ 20))) mv) = Inr (Lcon self)"
    and "kwarg_or kwargs ''Ucon'' (scaled_ones (FNum (10 ^ 20)) mv) = Inr (Ucon self)"
    and "kwarg_or kwargs ''x0'' (numpy_zeros nv) = Inr (x0 self)"
    and "kwarg_or kwargs ''pi0'' (numpy_zeros mv) = Inr (pi0 self)"
  using assms
  unfolding NLPModel_init_def Let_def bind_err_Inr
  by auto

lemma init_Inr_stop:
  assumes "NLPModel_init nv mv nm kwargs = Inr self"
  shows "stop_d self = FNum (1 / 10 ^ 6)" and "stop_c self = FNum (1 / 10 ^ 6)"
    and "stop_p self = FNum (1 / 10 ^ 6)"
  using assms
  unfolding NLPModel_init_def Let_def bind_err_Inr
  by auto

lemma kwarg_or_bound:
  assumes "0 \<le> k" and "case kwargs key of None \<Rightarrow> True | Some v \<Rightarrow> py_len v = k"
  shows "\<exists>v. kwarg_or kwargs key (scaled_ones c k) = Inr v \<and> int (length v) = k"
  using assms
  by (auto simp: kwarg_or_def scaled_ones_def numpy_ones_def bind_err_def py_len_def
           split: option.splits)

lemma kwarg_or_zeros:
  assumes "0 \<le> k"
  shows "\<exists>v. kwarg_or kwargs key (numpy_zeros k) = Inr v"
  using assms by (auto simp: kwarg_or_def numpy_zeros_def split: option.splits)

lemma classify_range_total:
  assumes "int (length L) = k" and "int (length U) = k"
  shows "\<exists>st'. classify_loop ninf pinf L U (py_range k) st = Inr st'"
  by (rule classify_loop_total) (simp add: set_py_range assms)


lemma init_total:
  assumes "0 \<le> nv" and "0 \<le> mv"
    and "case kwargs ''Lvar'' of None \<Rightarrow> True | Some v \<Rightarrow> py_len v = nv"
    and "case kwargs ''Uvar'' of None \<Rightarrow> True | Some v \<Rightarrow> py_len v = nv"
    and "case kwargs ''Lcon'' of None \<Rightarrow> True | Some v \<Rightarrow> py_len v = mv"
    and "case kwargs ''Ucon'' of None \<Rightarrow> True | Some v \<Rightarrow> py_len v = mv"
  shows "\<exists>self. NLPModel_init nv mv nm kwargs = Inr self"
proof -
  let ?pinf = "FNum (10 ^ 20)"
  let ?ninf = "float_neg ?pinf"
  obtain xv where xv: "kwarg_or kwargs ''x0'' (numpy_zeros nv) = Inr xv"
    using kwarg_or_zeros [OF assms(1)] by blast
  obtain pv where pv: "kwarg_or kwargs ''pi0'' (numpy_zeros mv) = Inr pv"
    using kwarg_or_zeros [OF assms(2)] by blast
  obtain lv where lv: "kwarg_or kwargs ''Lvar'' (scaled_ones ?ninf nv) = Inr lv"
    and llv: "int (length lv) = nv"
    using kwarg_or_bound [of nv kwargs "''Lvar''" ?ninf] assms(1,3) by blast
  obtain uv where uv: "kwarg_or kwargs ''Uvar'' (scaled_ones ?pinf nv) = Inr uv"
    and luv: "int (length uv) = nv"
    using kwarg_or_bound [of nv kwargs "''Uvar''" ?pinf] assms(1,4) by blast
  obtain lc where lc: "kwarg_or kwargs ''Lcon'' (scaled_ones ?ninf mv) = Inr lc"
    and llc: "int (length lc) = mv"
    using kwarg_or_bound [of mv kwargs "''Lcon''" ?ninf] assms(2,5) by blast
  obtain uc where uc: "kwarg_or kwargs ''Ucon'' (scaled_ones ?pinf mv) = Inr uc"
    and luc: "int (length uc) = mv"
    using kwarg_or_bound [of mv kwargs "''Ucon''" ?pinf] assms(2,6) by blast
  obtain cc where cc: "classify_loop ?ninf ?pinf lc uc (py_range mv) no_classes = Inr cc"
    using classify_range_total [OF llc luc] by blast
  obtain cb where cb: "classify_loop ?ninf ?pinf lv uv (py_range nv) no_classes = Inr cb"
    using classify_range_total [OF llv luv] by blast
  show ?thesis
    unfolding NLPModel_init_def Let_def xv pv lv uv lc uc cc cb bind_err_def sum.case
    by (rule exI) (rule refl)
qed


lemma kwarg_or_value:
  assumes "kwarg_or kwargs key (scaled_ones c k) = Inr v"
  shows "v = (case kwargs key of Some w \<Rightarrow> w | None \<Rightarrow> replicate (nat k) c)"
  using assms
  by (cases "kwargs key")
     (auto simp: kwarg_or_def scaled_ones_def numpy_ones_def bind_err_def map_replicate_const
           split: if_splits)

lemma members_no_classes: "members kd no_classes = []"
  by (cases kd) (simp_all add: no_classes_def)

lemma classify_range_members:
  assumes "classify_loop ninf pinf L U (py_range k) no_classes = Inr st"
  shows "members kd st = filter (\<lambda>i. kind_of ninf pinf (L ! nat i) (U ! nat i) = kd) (py_range k)"
    and "\<forall>i\<in>set (py_range k). i < int (length L) \<and> i < int (length U)"
  using classify_loop_members [OF assms] by (simp_all add: set_py_range members_no_classes)

lemma kind_of_iff:
  "(kind_of ninf pinf l u = KEqual) = (float_gt l ninf \<and> float_lt u pinf \<and> float_eq l u)"
  "(kind_of ninf pinf l u = KRange) = (float_gt l ninf \<and> float_lt u pinf \<and> \<not> float_eq l u)"
  "(kind_of ninf pinf l u = KLower) = (float_gt l ninf \<and> \<not> float_lt u pinf)"
  "(kind_of ninf pinf l u = KUpper) = (\<not> float_gt l ninf \<and> float_lt u pinf)"
  "(kind_of ninf pinf l u = KFree) = (\<not> float_gt l ninf \<and> \<not> float_lt u pinf)"
  by (auto simp: kind_of_def)

lemma classify_range_rule:
  assumes loop: "classify_loop ninf pinf L U (py_range k) no_classes = Inr st"
    and i: "0 \<le> i" "i < k"
  shows "\<exists>l u. getitem L i = Inr l \<and> getitem U i = Inr u \<and>
           (i \<in> set (cls_equal st)) = (float_gt l ninf \<and> float_lt u pinf \<and> float_eq l u) \<and>
           (i \<in> set (cls_range st)) = (float_gt l ninf \<and> float_lt u pinf \<and> \<not> float_eq l u) \<and>
           (i \<in> set (cls_lower st)) = (float_gt l ninf \<and> \<not> float_lt u pinf) \<and>
           (i \<in> set (cls_upper st)) = (\<not> float_gt l ninf \<and> float_lt u pinf) \<and>
           (i \<in> set (cls_free st)) = (\<not> float_gt l ninf \<and> \<not> float_lt u pinf)"
proof -
  have mem: "i \<in> set (py_range k)" using i by (simp add: set_py_range)
  with classify_range_members(2) [OF loop]
  have len: "i < int (length L)" "i < int (length U)" by auto
  have gl: "getitem L i = Inr (L ! nat i)" and gu: "getitem U i = Inr (U ! nat i)"
    using i(1) len by (simp_all add: getitem_nonneg)
  have m: "(i \<in> set (members kd st)) = (kind_of ninf pinf (L ! nat i) (U ! nat i) = kd)" for kd
    using mem by (simp add: classify_range_members(1) [OF loop])
  show ?thesis
    using m [of KEqual] m [of KRange] m [of KLower] m [of KUpper] m [of KFree]
    by (simp add: gl gu kind_of_iff)
qed

lemma classify_range_sorted:
  assumes "classify_loop ninf pinf L U (py_range k) no_classes = Inr st"
  shows "sorted_wrt (<) (members kd st)"
  by (simp add: classify_range_members(1) [OF assms] sorted_wrt_filter sorted_py_range)

lemma distinct_py_range: "distinct (py_range k)"
  by (simp add: py_range_def distinct_map)

lemma classify_range_partition:
  assumes "classify_loop ninf pinf L U (py_range k) no_classes = Inr st"
  shows "set (cls_equal st) \<union> set (cls_range st) \<union> set (cls_lower st) \<union> set (cls_upper st)
           \<union> set (cls_free st) = {i. 0 \<le> i \<and> i < k}"
    and "kd \<noteq> kd' \<Longrightarrow> set (members kd st) \<inter> set (members kd' st) = {}"
    and "distinct (members kd st)"
    and "py_len (cls_equal st) + py_len (cls_range st) + py_len (cls_lower st)
           + py_len (cls_upper st) + py_len (cls_free st) = max 0 k"
proof -
  note ms = classify_range_members(1) [OF assms]
  let ?f = "\<lambda>i. kind_of ninf pinf (L ! nat i) (U ! nat i)"
  have e: "cls_equal st = members KEqual st" "cls_range st = members KRange st"
    "cls_lower st = members KLower st" "cls_upper st = members KUpper st"
    "cls_free st = members KFree st" by simp_all
  have "set (members KEqual st) \<union> set (members KRange st) \<union> set (members KLower st)
           \<union> set (members KUpper st) \<union> set (members KFree st) = set (py_range k)"
    unfolding ms
  proof (intro equalityI subsetI)
    fix x assume "x \<in> set (py_range k)"
    then show "x \<in> set (filter (\<lambda>i. ?f i = KEqual) (py_range k)) \<union>
              set (filter (\<lambda>i. ?f i = KRange) (py_range k)) \<union>
              set (filter (\<lambda>i. ?f i = KLower) (py_range k)) \<union>
              set (filter (\<lambda>i. ?f i = KUpper) (py_range k)) \<union>
              set (filter (\<lambda>i. ?f i = KFree) (py_range k))"
      by (cases "?f x") simp_all
  qed auto
  then show "set (cls_equal st) \<union> set (cls_range st) \<union> set (cls_lower st) \<union> set (cls_upper st)
           \<union> set (cls_free st) = {i. 0 \<le> i \<and> i < k}"
    unfolding e by (simp add: set_py_range)
  show "kd \<noteq> kd' \<Longrightarrow> set (members kd st) \<inter> set (members kd' st) = {}"
    unfolding ms by auto
  show "distinct (members kd st)"
    unfolding ms by (simp add: distinct_py_range)
  have "int (length (members KEqual st) + length (members KRange st)
          + length (members KLower st) + length (members KUpper st)
          + length (members KFree st)) = int (length (py_range k))"
    unfolding ms by (simp only: length_kinds)
  then show "py_len (cls_equal st) + py_len (cls_range st) + py_len (cls_lower st)
           + py_len (cls_upper st) + py_len (cls_free st) = max 0 k"
    unfolding e py_len_def by (simp add: length_py_range)
qed

lemma init_Inr_vectors:
  assumes "NLPModel_init nv mv nm kwargs = Inr self"
  shows "Lvar self = (case kwargs ''Lvar'' of Some w \<Rightarrow> w
                      | None \<Rightarrow> replicate (nat nv) (FNum (- (10 ^ 20))))"
    and "Uvar self = (case kwargs ''Uvar'' of Some w \<Rightarrow> w
                      | None \<Rightarrow> replicate (nat nv) (FNum (10 ^ 20)))"
    and "Lcon self = (case kwargs ''Lcon'' of Some w \<Rightarrow> w
                      | None \<Rightarrow> replicate (nat mv) (FNum (- (10 ^ 20))))"
    and "Ucon self = (case kwargs ''Ucon'' of Some w \<Rightarrow> w
                      | None \<Rightarrow> replicate (nat mv) (FNum (10 ^ 20)))"
  by (rule kwarg_or_value [OF init_Inr_kwargs(1) [OF assms]])
     (rule kwarg_or_value [OF init_Inr_kwargs(2) [OF assms]],
      rule kwarg_or_value [OF init_Inr_kwargs(3) [OF assms]],
      rule kwarg_or_value [OF init_Inr_kwargs(4) [OF assms]])

lemma init_projr:
  assumes "\<exists>self. NLPModel_init nv mv nm kwargs = Inr self"
  shows "NLPModel_init nv mv nm kwargs = Inr (projr (NLPModel_init nv mv nm kwargs))"
  using assms by auto

lemma float_gt_not_le: "float_gt a b \<Longrightarrow> \<not> float_le a b"
  by (cases a; cases b) (auto simp: float_gt_def float_le_def float_eq_def)

lemma AtOptimality_floats:
  assumes "residuals self x z = (PyFloat d, PyFloat c, PyFloat p)"
  shows "AtOptimality ver residuals self x z =
           Inr (float_le d (stop_d self) \<and> float_le c (stop_c self) \<and> float_le p (stop_p self))"
  using assms by (simp add: AtOptimality_def py_and_def bind_err_def)

lemma atLeastLessThan_int_conv: "{i::int. 0 \<le> i \<and> i < k} = {0..<k}"
  by auto

section \<open>Instances used below\<close>

text \<open>The equations that evaluate a construction on concrete arguments.\<close>

lemmas init_eval = NLPModel_init_def Let_def kwarg_or_def numpy_zeros_def numpy_ones_def
  scaled_ones_def bind_err_def py_range_def upt_conv_Cons classify_index_def
  classify_elif_def getitem_def py_len_def float_gt_def float_eq_def no_classes_def
  eval_nat_numeral

lemma classes_simps:
  "cls_equal (constraint_classes self) = equalC self"
  "cls_range (constraint_classes self) = rangeC self"
  "cls_lower (constraint_classes self) = lowerC self"
  "cls_upper (constraint_classes self) = upperC self"
  "cls_free (constraint_classes self) = freeC self"
  "cls_equal (variable_classes self) = fixedB self"
  "cls_range (variable_classes self) = rangeB self"
  "cls_lower (variable_classes self) = lowerB self"
  "cls_upper (variable_classes self) = upperB self"
  "cls_free (variable_classes self) = freeB self"
  by (simp_all add: constraint_classes_def variable_classes_def)

lemma classify_range_distinct:
  assumes "classify_loop ninf pinf L U (py_range k) no_classes = Inr st"
  shows "distinct (cls_equal st @ cls_range st @ cls_lower st @ cls_upper st @ cls_free st)"
proof -
  note ms = classify_range_members(1) [OF assms]
  have e: "cls_equal st = members KEqual st" "cls_range st = members KRange st"
    "cls_lower st = members KLower st" "cls_upper st = members KUpper st"
    "cls_free st = members KFree st" by simp_all
  show ?thesis unfolding e ms by (auto simp: distinct_py_range)
qed

lemma classify_range_sorted_all:
  assumes "classify_loop ninf pinf L U (py_range k) no_classes = Inr st"
  shows "sorted_wrt (<) (cls_equal st) \<and> sorted_wrt (<) (cls_range st) \<and>
         sorted_wrt (<) (cls_lower st) \<and> sorted_wrt (<) (cls_upper st) \<and>
         sorted_wrt (<) (cls_free st)"
  using classify_range_sorted [OF assms, of KEqual] classify_range_sorted [OF assms, of KRange]
    classify_range_sorted [OF assms, of KLower] classify_range_sorted [OF assms, of KUpper]
    classify_range_sorted [OF assms, of KFree]
  by simp

lemma example_ok:
  "NLPModel_init 1 4 ''example'' example_kwargs =
     Inr (projr (NLPModel_init 1 4 ''example'' example_kwargs))"
  by (rule init_projr, rule init_total) (simp_all add: example_kwargs_def py_len_def)

lemma sentinel_ok:
  "NLPModel_init 2 2 ''sentinel'' sentinel_kwargs =
     Inr (projr (NLPModel_init 2 2 ''sentinel'' sentinel_kwargs))"
  by (rule init_projr, rule init_total) (simp_all add: sentinel_kwargs_def py_len_def)

lemma inverted_ok_len:
  "case inverted_kwargs ''Lvar'' of None \<Rightarrow> True | Some v \<Rightarrow> py_len v = 1"
  "case inverted_kwargs ''Uvar'' of None \<Rightarrow> True | Some v \<Rightarrow> py_len v = 1"
  "case inverted_kwargs ''Lcon'' of None \<Rightarrow> True | Some v \<Rightarrow> py_len v = 1"
  "case inverted_kwargs ''Ucon'' of None \<Rightarrow> True | Some v \<Rightarrow> py_len v = 1"
  by (simp_all add: inverted_kwargs_def py_len_def)

section \<open>The claims\<close>

subsection \<open>C1: the optimality test on the base class\<close>

text \<open>
  Claim C1 says that \<^verbatim>\<open>AtOptimality(x, z)\<close> on the base class returns false. It does
  not: on the model built with \<open>n = 1\<close>, \<open>m = 0\<close> and no keyword argument, at
  \<open>x = [0.0]\<close> and \<open>z = []\<close>, the three residuals are \<^verbatim>\<open>None\<close>, each comparison
  \<^verbatim>\<open>None <= 1e-6\<close> is true in Python 2, and the result is \<^verbatim>\<open>True\<close>. In Python 3 the
  first comparison raises \<^verbatim>\<open>TypeError\<close>. Neither is \<^verbatim>\<open>False\<close>.
\<close>

theorem AtOptimality_base_class_not_false:
  "NLPModel_init 1 0 ''Generic'' Map.empty =
     Inr (projr (NLPModel_init 1 0 ''Generic'' Map.empty)) \<and>
   AtOptimality Py2 OptimalityResiduals (projr (NLPModel_init 1 0 ''Generic'' Map.empty))
     [FNum 0] ([] :: pyfloat list) \<noteq> Inr False \<and>
   AtOptimality Py2 OptimalityResiduals (projr (NLPModel_init 1 0 ''Generic'' Map.empty))
     [FNum 0] ([] :: pyfloat list) = Inr True \<and>
   AtOptimality Py3 OptimalityResiduals (projr (NLPModel_init 1 0 ''Generic'' Map.empty))
     [FNum 0] ([] :: pyfloat list) = Inl TypeError"
proof -
  have "NLPModel_init 1 0 ''Generic'' Map.empty =
          Inr (projr (NLPModel_init 1 0 ''Generic'' Map.empty))"
    by (rule init_projr, rule init_total) simp_all
  then show ?thesis
    by (simp add: AtOptimality_def OptimalityResiduals_def py_and_def bind_err_def)
qed

text \<open>
  Claim C1, amended: for every model, \<open>x\<close> and \<open>z\<close>, \<^verbatim>\<open>AtOptimality(x, z)\<close> with the
  base class's \<^verbatim>\<open>OptimalityResiduals\<close> returns \<^verbatim>\<open>True\<close> under Python 2 and raises
  \<^verbatim>\<open>TypeError\<close> under Python 3; it never returns \<^verbatim>\<open>False\<close>.
\<close>

theorem AtOptimality_base_class:
  "AtOptimality Py2 OptimalityResiduals self x z = Inr True \<and>
   AtOptimality Py3 OptimalityResiduals self x z = Inl TypeError"
  by (simp add: AtOptimality_def OptimalityResiduals_def py_and_def bind_err_def)

subsection \<open>C2: the classification rule\<close>

text \<open>
  Claim C2: after a construction that returned, every index \<open>i\<close> of \<open>0, ..., m - 1\<close> is
  classified from \<open>l = Lcon[i]\<close> and \<open>u = Ucon[i]\<close> by the rule: with \<open>l > -1e20\<close> and
  \<open>u < 1e20\<close> it is in \<^verbatim>\<open>equalC\<close> when \<open>l == u\<close> and in \<^verbatim>\<open>rangeC\<close> otherwise; else with
  \<open>l > -1e20\<close> it is in \<^verbatim>\<open>lowerC\<close>; else with \<open>u < 1e20\<close> it is in \<^verbatim>\<open>upperC\<close>; else
  it is in \<^verbatim>\<open>freeC\<close>. The comparisons are strict and the equality is exact. The same
  rule over \<^verbatim>\<open>Lvar, Uvar\<close> classifies every \<open>j\<close> of \<open>0, ..., n - 1\<close> into \<^verbatim>\<open>fixedB\<close>,
  \<^verbatim>\<open>rangeB\<close>, \<^verbatim>\<open>lowerB\<close>, \<^verbatim>\<open>upperB\<close>, \<^verbatim>\<open>freeB\<close>.
\<close>

theorem classification_rule:
  assumes "NLPModel_init nv mv nm kwargs = Inr self"
  shows "(\<forall>i. 0 \<le> i \<and> i < mv \<longrightarrow>
           (\<exists>l u. getitem (Lcon self) i = Inr l \<and> getitem (Ucon self) i = Inr u \<and>
              (i \<in> set (equalC self)) =
                (float_gt l (FNum (- (10 ^ 20))) \<and> float_lt u (FNum (10 ^ 20)) \<and> float_eq l u) \<and>
              (i \<in> set (rangeC self)) =
                (float_gt l (FNum (- (10 ^ 20))) \<and> float_lt u (FNum (10 ^ 20)) \<and> \<not> float_eq l u) \<and>
              (i \<in> set (lowerC self)) =
                (float_gt l (FNum (- (10 ^ 20))) \<and> \<not> float_lt u (FNum (10 ^ 20))) \<and>
              (i \<in> set (upperC self)) =
                (\<not> float_gt l (FNum (- (10 ^ 20))) \<and> float_lt u (FNum (10 ^ 20))) \<and>
              (i \<in> set (freeC self)) =
                (\<not> float_gt l (FNum (- (10 ^ 20))) \<and> \<not> float_lt u (FNum (10 ^ 20))))) \<and>
         (\<forall>j. 0 \<le> j \<and> j < nv \<longrightarrow>
           (\<exists>l u. getitem (Lvar self) j = Inr l \<and> getitem (Uvar self) j = Inr u \<and>
              (j \<in> set (fixedB self)) =
                (float_gt l (FNum (- (10 ^ 20))) \<and> float_lt u (FNum (10 ^ 20)) \<and> float_eq l u) \<and>
              (j \<in> set (rangeB self)) =
                (float_gt l (FNum (- (10 ^ 20))) \<and> float_lt u (FNum (10 ^ 20)) \<and> \<not> float_eq l u) \<and>
              (j \<in> set (lowerB self)) =
                (float_gt l (FNum (- (10 ^ 20))) \<and> \<not> float_lt u (FNum (10 ^ 20))) \<and>
              (j \<in> set (upperB self)) =
                (\<not> float_gt l (FNum (- (10 ^ 20))) \<and> float_lt u (FNum (10 ^ 20))) \<and>
              (j \<in> set (freeB self)) =
                (\<not> float_gt l (FNum (- (10 ^ 20))) \<and> \<not> float_lt u (FNum (10 ^ 20)))))"
proof (intro conjI allI impI)
  fix i assume "0 \<le> i \<and> i < mv"
  then have i: "0 \<le> i" "i < mv" by simp_all
  from classify_range_rule [OF init_Inr_loops(1) [OF assms] i]
  show "\<exists>l u. getitem (Lcon self) i = Inr l \<and> getitem (Ucon self) i = Inr u \<and>
              (i \<in> set (equalC self)) =
                (float_gt l (FNum (- (10 ^ 20))) \<and> float_lt u (FNum (10 ^ 20)) \<and> float_eq l u) \<and>
              (i \<in> set (rangeC self)) =
                (float_gt l (FNum (- (10 ^ 20))) \<and> float_lt u (FNum (10 ^ 20)) \<and> \<not> float_eq l u) \<and>
              (i \<in> set (lowerC self)) =
                (float_gt l (FNum (- (10 ^ 20))) \<and> \<not> float_lt u (FNum (10 ^ 20))) \<and>
              (i \<in> set (upperC self)) =
                (\<not> float_gt l (FNum (- (10 ^ 20))) \<and> float_lt u (FNum (10 ^ 20))) \<and>
              (i \<in> set (freeC self)) =
                (\<not> float_gt l (FNum (- (10 ^ 20))) \<and> \<not> float_lt u (FNum (10 ^ 20)))"
    unfolding constraint_classes_def bound_classes.simps .
next
  fix j assume "0 \<le> j \<and> j < nv"
  then have j: "0 \<le> j" "j < nv" by simp_all
  from classify_range_rule [OF init_Inr_loops(2) [OF assms] j]
  show "\<exists>l u. getitem (Lvar self) j = Inr l \<and> getitem (Uvar self) j = Inr u \<and>
              (j \<in> set (fixedB self)) =
                (float_gt l (FNum (- (10 ^ 20))) \<and> float_lt u (FNum (10 ^ 20)) \<and> float_eq l u) \<and>
              (j \<in> set (rangeB self)) =
                (float_gt l (FNum (- (10 ^ 20))) \<and> float_lt u (FNum (10 ^ 20)) \<and> \<not> float_eq l u) \<and>
              (j \<in> set (lowerB self)) =
                (float_gt l (FNum (- (10 ^ 20))) \<and> \<not> float_lt u (FNum (10 ^ 20))) \<and>
              (j \<in> set (upperB self)) =
                (\<not> float_gt l (FNum (- (10 ^ 20))) \<and> float_lt u (FNum (10 ^ 20))) \<and>
              (j \<in> set (freeB self)) =
                (\<not> float_gt l (FNum (- (10 ^ 20))) \<and> \<not> float_lt u (FNum (10 ^ 20)))"
    unfolding variable_classes_def bound_classes.simps .
qed

text \<open>
  An instance of C2, with four constraints and one variable: bounds \<open>(5, 5)\<close> are an
  equality and not a range, \<open>(0, 10)\<close> a range, \<open>(-1e20, 10)\<close> an upper bound, and the
  variable bounds \<open>(1, 1e20)\<close> a lower bound.
\<close>

theorem classification_rule_witness:
  "0 \<in> set (equalC (projr (NLPModel_init 1 4 ''example'' example_kwargs))) \<and>
   0 \<notin> set (rangeC (projr (NLPModel_init 1 4 ''example'' example_kwargs))) \<and>
   1 \<in> set (rangeC (projr (NLPModel_init 1 4 ''example'' example_kwargs))) \<and>
   2 \<in> set (upperC (projr (NLPModel_init 1 4 ''example'' example_kwargs))) \<and>
   0 \<in> set (lowerB (projr (NLPModel_init 1 4 ''example'' example_kwargs)))"
proof -
  let ?M = "projr (NLPModel_init 1 4 ''example'' example_kwargs)"
  note v = init_Inr_vectors [OF example_ok]
  have vs: "Lcon ?M = [FNum 5, FNum 0, FNum (- (10 ^ 20)), FNum 0]"
    "Ucon ?M = [FNum 5, FNum 10, FNum 10, FNum 1]"
    "Lvar ?M = [FNum 1]" "Uvar ?M = [FNum (10 ^ 20)]"
    unfolding v by (simp_all add: example_kwargs_def)
  note r = classification_rule [OF example_ok]
  note c = r [THEN conjunct1, rule_format] and b = r [THEN conjunct2, rule_format]
  have "0 \<in> set (equalC ?M) \<and> 0 \<notin> set (rangeC ?M)"
    using c [of 0] vs by (simp add: getitem_def py_len_def float_gt_def float_eq_def)
  moreover have "1 \<in> set (rangeC ?M)"
    using c [of 1] vs by (simp add: getitem_def py_len_def float_gt_def float_eq_def)
  moreover have "2 \<in> set (upperC ?M)"
    using c [of 2] vs by (simp add: getitem_def py_len_def float_gt_def float_eq_def)
  moreover have "0 \<in> set (lowerB ?M)"
    using b [of 0] vs by (simp add: getitem_def py_len_def float_gt_def float_eq_def)
  ultimately show ?thesis by simp
qed

subsection \<open>C3: the classes partition the indices\<close>

text \<open>
  Claim C3: after construction with valid bound vectors (the construction returned and
  \<open>n\<close>, \<open>m\<close> are not negative) the five lists \<^verbatim>\<open>equalC\<close>, \<^verbatim>\<open>rangeC\<close>, \<^verbatim>\<open>lowerC\<close>,
  \<^verbatim>\<open>upperC\<close>, \<^verbatim>\<open>freeC\<close> partition \<open>0, ..., m - 1\<close>: their concatenation has no index
  twice, so every index is in at most one list and at most once there, and together
  they hold exactly the indices \<open>0, ..., m - 1\<close>. The five counts add up to \<open>m\<close>. The
  same holds for \<^verbatim>\<open>fixedB\<close>, \<^verbatim>\<open>rangeB\<close>, \<^verbatim>\<open>lowerB\<close>, \<^verbatim>\<open>upperB\<close>, \<^verbatim>\<open>freeB\<close> and \<open>n\<close>.
\<close>

theorem classes_partition:
  assumes "NLPModel_init nv mv nm kwargs = Inr self" and "0 \<le> mv" and "0 \<le> nv"
  shows "distinct (equalC self @ rangeC self @ lowerC self @ upperC self @ freeC self) \<and>
         set (equalC self) \<union> set (rangeC self) \<union> set (lowerC self) \<union> set (upperC self)
           \<union> set (freeC self) = {0..<m self} \<and>
         nequalC self + nrangeC self + nlowerC self + nupperC self + nfreeC self = m self \<and>
         distinct (fixedB self @ rangeB self @ lowerB self @ upperB self @ freeB self) \<and>
         set (fixedB self) \<union> set (rangeB self) \<union> set (lowerB self) \<union> set (upperB self)
           \<union> set (freeB self) = {0..<n self} \<and>
         nfixedB self + nrangeB self + nlowerB self + nupperB self + nfreeB self = n self"
proof -
  note lc = init_Inr_loops(1) [OF assms(1)] and lb = init_Inr_loops(2) [OF assms(1)]
  note d = init_Inr_dims(1,2) [OF assms(1)]
  note k = init_Inr_counts [OF assms(1)]
  have c1: "distinct (equalC self @ rangeC self @ lowerC self @ upperC self @ freeC self)"
    using classify_range_distinct [OF lc] by (simp only: classes_simps)
  have c2: "set (equalC self) \<union> set (rangeC self) \<union> set (lowerC self) \<union> set (upperC self)
           \<union> set (freeC self) = {0..<m self}"
    using classify_range_partition(1) [OF lc]
    by (simp only: classes_simps atLeastLessThan_int_conv d)
  have c3: "nequalC self + nrangeC self + nlowerC self + nupperC self + nfreeC self = m self"
    using classify_range_partition(4) [OF lc] assms(2)
    by (simp add: classes_simps k d)
  have b1: "distinct (fixedB self @ rangeB self @ lowerB self @ upperB self @ freeB self)"
    using classify_range_distinct [OF lb] by (simp only: classes_simps)
  have b2: "set (fixedB self) \<union> set (rangeB self) \<union> set (lowerB self) \<union> set (upperB self)
           \<union> set (freeB self) = {0..<n self}"
    using classify_range_partition(1) [OF lb]
    by (simp only: classes_simps atLeastLessThan_int_conv d)
  have b3: "nfixedB self + nrangeB self + nlowerB self + nupperB self + nfreeB self = n self"
    using classify_range_partition(4) [OF lb] assms(3)
    by (simp add: classes_simps k d)
  show ?thesis by (intro conjI c1 c2 c3 b1 b2 b3)
qed

text \<open>An instance of C3 on the construction with four constraints and one variable.\<close>

theorem classes_partition_witness:
  "distinct (equalC (projr (NLPModel_init 1 4 ''example'' example_kwargs)) @
             rangeC (projr (NLPModel_init 1 4 ''example'' example_kwargs)) @
             lowerC (projr (NLPModel_init 1 4 ''example'' example_kwargs)) @
             upperC (projr (NLPModel_init 1 4 ''example'' example_kwargs)) @
             freeC (projr (NLPModel_init 1 4 ''example'' example_kwargs))) \<and>
   set (equalC (projr (NLPModel_init 1 4 ''example'' example_kwargs))) \<union>
   set (rangeC (projr (NLPModel_init 1 4 ''example'' example_kwargs))) \<union>
   set (lowerC (projr (NLPModel_init 1 4 ''example'' example_kwargs))) \<union>
   set (upperC (projr (NLPModel_init 1 4 ''example'' example_kwargs))) \<union>
   set (freeC (projr (NLPModel_init 1 4 ''example'' example_kwargs))) = {0..<4} \<and>
   nequalC (projr (NLPModel_init 1 4 ''example'' example_kwargs)) +
   nrangeC (projr (NLPModel_init 1 4 ''example'' example_kwargs)) +
   nlowerC (projr (NLPModel_init 1 4 ''example'' example_kwargs)) +
   nupperC (projr (NLPModel_init 1 4 ''example'' example_kwargs)) +
   nfreeC (projr (NLPModel_init 1 4 ''example'' example_kwargs)) = 4 \<and>
   nfixedB (projr (NLPModel_init 1 4 ''example'' example_kwargs)) +
   nrangeB (projr (NLPModel_init 1 4 ''example'' example_kwargs)) +
   nlowerB (projr (NLPModel_init 1 4 ''example'' example_kwargs)) +
   nupperB (projr (NLPModel_init 1 4 ''example'' example_kwargs)) +
   nfreeB (projr (NLPModel_init 1 4 ''example'' example_kwargs)) = 1"
proof -
  let ?M = "projr (NLPModel_init 1 4 ''example'' example_kwargs)"
  have h: "(0::int) \<le> 4" "(0::int) \<le> 1" by simp_all
  note d = init_Inr_dims(1,2) [OF example_ok]
  from classes_partition [OF example_ok h] show ?thesis by (simp add: d)
qed

subsection \<open>C4: default construction\<close>

text \<open>
  Claim C4: construction with \<open>n = 3\<close>, \<open>m = 2\<close> and no keyword argument succeeds and
  gives \<^verbatim>\<open>x0\<close> three zeros, \<^verbatim>\<open>pi0\<close> two zeros, \<^verbatim>\<open>Lvar\<close> three times \<open>-1e20\<close>,
  \<^verbatim>\<open>Uvar\<close> three times \<open>1e20\<close>, both constraints in \<^verbatim>\<open>freeC\<close>, the three variables in
  \<^verbatim>\<open>freeB\<close> (the other eight lists empty), \<^verbatim>\<open>nln = [0, 1]\<close>, \<^verbatim>\<open>lin = []\<close> and
  \<^verbatim>\<open>net = []\<close>.
\<close>

theorem default_construction:
  "\<exists>self. NLPModel_init 3 2 ''Generic'' Map.empty = Inr self \<and>
     n self = 3 \<and> m self = 2 \<and>
     x0 self = [FNum 0, FNum 0, FNum 0] \<and> pi0 self = [FNum 0, FNum 0] \<and>
     Lvar self = [FNum (- (10 ^ 20)), FNum (- (10 ^ 20)), FNum (- (10 ^ 20))] \<and>
     Uvar self = [FNum (10 ^ 20), FNum (10 ^ 20), FNum (10 ^ 20)] \<and>
     freeC self = [0, 1] \<and> equalC self = [] \<and> rangeC self = [] \<and> lowerC self = [] \<and>
     upperC self = [] \<and>
     freeB self = [0, 1, 2] \<and> fixedB self = [] \<and> rangeB self = [] \<and> lowerB self = [] \<and>
     upperB self = [] \<and>
     nln self = [0, 1] \<and> lin self = [] \<and> net self = []"
  by (simp add: init_eval)

subsection \<open>C5: the optimality test on defined residuals\<close>

text \<open>
  Claim C5: when \<^verbatim>\<open>OptimalityResiduals\<close> returns three numbers \<open>(d, c, p)\<close>,
  \<^verbatim>\<open>AtOptimality\<close> returns true exactly when \<open>d <= stop_d\<close>, \<open>c <= stop_c\<close> and
  \<open>p <= stop_p\<close>. Residuals equal to their tolerances give true, a residual above its
  tolerance gives false, and a constructed model has the three tolerances \<open>1e-6\<close>.
  The method \<^verbatim>\<open>OptimalityResiduals\<close> of a subclass is the argument \<open>residuals\<close>.
\<close>

theorem AtOptimality_defined_residuals:
  assumes "residuals self x z = (PyFloat d, PyFloat c, PyFloat p)"
  shows "AtOptimality ver residuals self x z =
           Inr (float_le d (stop_d self) \<and> float_le c (stop_c self) \<and> float_le p (stop_p self))
         \<and> (d = stop_d self \<and> c = stop_c self \<and> p = stop_p self \<and>
              stop_d self \<noteq> FNaN \<and> stop_c self \<noteq> FNaN \<and> stop_p self \<noteq> FNaN
              \<longrightarrow> AtOptimality ver residuals self x z = Inr True)
         \<and> (float_gt d (stop_d self) \<or> float_gt c (stop_c self) \<or> float_gt p (stop_p self)
              \<longrightarrow> AtOptimality ver residuals self x z = Inr False)
         \<and> (\<forall>nv mv nm kwargs. NLPModel_init nv mv nm kwargs = Inr self \<longrightarrow>
              stop_d self = FNum (1 / 10 ^ 6) \<and> stop_c self = FNum (1 / 10 ^ 6) \<and>
              stop_p self = FNum (1 / 10 ^ 6))"
proof (intro conjI impI allI)
  show r: "AtOptimality ver residuals self x z =
           Inr (float_le d (stop_d self) \<and> float_le c (stop_c self) \<and> float_le p (stop_p self))"
    using assms by (rule AtOptimality_floats)
  show "AtOptimality ver residuals self x z = Inr True"
    if "d = stop_d self \<and> c = stop_c self \<and> p = stop_p self \<and>
        stop_d self \<noteq> FNaN \<and> stop_c self \<noteq> FNaN \<and> stop_p self \<noteq> FNaN"
    using that by (simp add: r float_le_def float_eq_def)
  show "AtOptimality ver residuals self x z = Inr False"
    if "float_gt d (stop_d self) \<or> float_gt c (stop_c self) \<or> float_gt p (stop_p self)"
    using that float_gt_not_le by (auto simp: r)
next
  fix nv mv nm kwargs
  assume a: "NLPModel_init nv mv nm kwargs = Inr self"
  show "stop_d self = FNum (1 / 10 ^ 6)" "stop_c self = FNum (1 / 10 ^ 6)"
    "stop_p self = FNum (1 / 10 ^ 6)"
    by (rule init_Inr_stop [OF a])+
qed

text \<open>
  An instance of C5 on the default model: residuals \<open>(1e-6, 0, 1e-6)\<close> are at optimality,
  residuals \<open>(1e-6, 2e-6, 0)\<close> are not.
\<close>

theorem AtOptimality_defined_residuals_witness:
  "AtOptimality Py2
     (\<lambda>self x z. (PyFloat (FNum (1 / 10 ^ 6)), PyFloat (FNum 0), PyFloat (FNum (1 / 10 ^ 6))))
     (projr (NLPModel_init 3 2 ''Generic'' Map.empty))
     [FNum 0, FNum 0, FNum 0] [FNum 0, FNum 0] = Inr True \<and>
   AtOptimality Py2
     (\<lambda>self x z. (PyFloat (FNum (1 / 10 ^ 6)), PyFloat (FNum (2 / 10 ^ 6)), PyFloat (FNum 0)))
     (projr (NLPModel_init 3 2 ''Generic'' Map.empty))
     [FNum 0, FNum 0, FNum 0] [FNum 0, FNum 0] = Inr False"
proof -
  let ?M = "projr (NLPModel_init 3 2 ''Generic'' Map.empty)"
  let ?x = "[FNum 0, FNum 0, FNum 0]"
  let ?z = "[FNum 0, FNum 0]"
  let ?r1 = "\<lambda>(self :: NLPModel) (x :: pyfloat list) (z :: pyfloat list).
               (PyFloat (FNum (1 / 10 ^ 6)), PyFloat (FNum 0), PyFloat (FNum (1 / 10 ^ 6)))"
  let ?r2 = "\<lambda>(self :: NLPModel) (x :: pyfloat list) (z :: pyfloat list).
               (PyFloat (FNum (1 / 10 ^ 6)), PyFloat (FNum (2 / 10 ^ 6)), PyFloat (FNum 0))"
  have ok: "NLPModel_init 3 2 ''Generic'' Map.empty = Inr ?M"
    by (rule init_projr, rule init_total) simp_all
  have h1: "?r1 ?M ?x ?z = (PyFloat (FNum (1 / 10 ^ 6)), PyFloat (FNum 0), PyFloat (FNum (1 / 10 ^ 6)))"
    by simp
  have h2: "?r2 ?M ?x ?z = (PyFloat (FNum (1 / 10 ^ 6)), PyFloat (FNum (2 / 10 ^ 6)), PyFloat (FNum 0))"
    by simp
  note t1 = AtOptimality_defined_residuals
    [of ?r1 ?M ?x ?z "FNum (1 / 10 ^ 6)" "FNum 0" "FNum (1 / 10 ^ 6)" Py2, OF h1]
  note t2 = AtOptimality_defined_residuals
    [of ?r2 ?M ?x ?z "FNum (1 / 10 ^ 6)" "FNum (2 / 10 ^ 6)" "FNum 0" Py2, OF h2]
  from t1 have tol: "stop_d ?M = FNum (1 / 10 ^ 6)" "stop_c ?M = FNum (1 / 10 ^ 6)"
    "stop_p ?M = FNum (1 / 10 ^ 6)" using ok by blast+
  from t1 have a: "AtOptimality Py2 ?r1 ?M ?x ?z = Inr True"
    by (simp add: tol float_le_def float_eq_def)
  from t2 have b: "AtOptimality Py2 ?r2 ?M ?x ?z = Inr False"
    by (simp add: tol float_le_def float_eq_def)
  show ?thesis using a b by simp
qed

subsection \<open>C6: resetting the counters\<close>

text \<open>
  Claim C6: \<^verbatim>\<open>ResetCounters\<close> sets the seven counters to zero whatever they were, and
  changes nothing else: putting the old values of the seven counters back gives the
  model it started from. It cannot fail: the model of the method is a total function
  with no error result, as the method has no statement that can raise.
\<close>

theorem ResetCounters_effect:
  "feval (snd (ResetCounters self)) = 0 \<and> geval (snd (ResetCounters self)) = 0 \<and>
   Heval (snd (ResetCounters self)) = 0 \<and> Hprod (snd (ResetCounters self)) = 0 \<and>
   ceval (snd (ResetCounters self)) = 0 \<and> Jeval (snd (ResetCounters self)) = 0 \<and>
   Jprod (snd (ResetCounters self)) = 0 \<and>
   (snd (ResetCounters self))\<lparr>feval := feval self, geval := geval self, Heval := Heval self,
      Hprod := Hprod self, ceval := ceval self, Jeval := Jeval self, Jprod := Jprod self\<rparr> = self"
  by (simp add: ResetCounters_def)

subsection \<open>C7: the number of bounded variables\<close>

text \<open>
  Claim C7: after every construction that returns, \<^verbatim>\<open>nbounds == n - nfreeB\<close>, where
  \<^verbatim>\<open>n\<close> is the argument of the constructor and \<^verbatim>\<open>nfreeB\<close> the length of \<^verbatim>\<open>freeB\<close>.
\<close>

theorem nbounds_eq:
  assumes "NLPModel_init nv mv nm kwargs = Inr self"
  shows "nbounds self = n self - nfreeB self \<and> n self = nv \<and> nfreeB self = py_len (freeB self)"
  using init_Inr_counts(1,11) [OF assms] init_Inr_dims(1) [OF assms] by simp

text \<open>
  An instance of C7: two variables with \<^verbatim>\<open>Lvar = [0.0, -1e20]\<close> and the default upper
  bounds; variable 1 is free, so \<^verbatim>\<open>nbounds = 2 - 1 = 1\<close>.
\<close>

theorem nbounds_eq_witness:
  "nbounds (projr (NLPModel_init 2 0 ''w'' [''Lvar'' \<mapsto> [FNum 0, FNum (- (10 ^ 20))]])) =
     n (projr (NLPModel_init 2 0 ''w'' [''Lvar'' \<mapsto> [FNum 0, FNum (- (10 ^ 20))]])) -
     nfreeB (projr (NLPModel_init 2 0 ''w'' [''Lvar'' \<mapsto> [FNum 0, FNum (- (10 ^ 20))]])) \<and>
   nfreeB (projr (NLPModel_init 2 0 ''w'' [''Lvar'' \<mapsto> [FNum 0, FNum (- (10 ^ 20))]])) = 1 \<and>
   nbounds (projr (NLPModel_init 2 0 ''w'' [''Lvar'' \<mapsto> [FNum 0, FNum (- (10 ^ 20))]])) = 1"
proof -
  let ?kw = "[''Lvar'' \<mapsto> [FNum 0, FNum (- (10 ^ 20))]]"
  let ?M = "projr (NLPModel_init 2 0 ''w'' ?kw)"
  have ok: "NLPModel_init 2 0 ''w'' ?kw = Inr ?M"
    by (rule init_projr, rule init_total) (simp_all add: py_len_def)
  have f: "freeB ?M = [1]" by (simp add: init_eval)
  from nbounds_eq [OF ok] f show ?thesis by (simp add: py_len_def)
qed

subsection \<open>C8: the lists are ascending\<close>

text \<open>
  Claim C8: each of the ten lists built by the constructor is strictly ascending, and
  the construction is deterministic: a construction on the same arguments returns the
  same model, hence the same lists.
\<close>

theorem classes_ascending:
  assumes "NLPModel_init nv mv nm kwargs = Inr self"
  shows "sorted_wrt (<) (equalC self) \<and> sorted_wrt (<) (rangeC self) \<and>
         sorted_wrt (<) (lowerC self) \<and> sorted_wrt (<) (upperC self) \<and>
         sorted_wrt (<) (freeC self) \<and>
         sorted_wrt (<) (fixedB self) \<and> sorted_wrt (<) (rangeB self) \<and>
         sorted_wrt (<) (lowerB self) \<and> sorted_wrt (<) (upperB self) \<and>
         sorted_wrt (<) (freeB self) \<and>
         (\<forall>self'. NLPModel_init nv mv nm kwargs = Inr self' \<longrightarrow> self' = self)"
proof -
  have c: "sorted_wrt (<) (equalC self) \<and> sorted_wrt (<) (rangeC self) \<and>
         sorted_wrt (<) (lowerC self) \<and> sorted_wrt (<) (upperC self) \<and>
         sorted_wrt (<) (freeC self)"
    using classify_range_sorted_all [OF init_Inr_loops(1) [OF assms]]
    by (simp only: classes_simps)
  have b: "sorted_wrt (<) (fixedB self) \<and> sorted_wrt (<) (rangeB self) \<and>
         sorted_wrt (<) (lowerB self) \<and> sorted_wrt (<) (upperB self) \<and>
         sorted_wrt (<) (freeB self)"
    using classify_range_sorted_all [OF init_Inr_loops(2) [OF assms]]
    by (simp only: classes_simps)
  have d: "\<forall>self'. NLPModel_init nv mv nm kwargs = Inr self' \<longrightarrow> self' = self"
    using assms by simp
  from c b d show ?thesis by blast
qed

text \<open>
  An instance of C8: of the four constraints, 1 and 3 are ranges, and \<^verbatim>\<open>rangeC\<close> is
  \<open>[1, 3]\<close>.
\<close>

theorem classes_ascending_witness:
  "rangeC (projr (NLPModel_init 1 4 ''example'' example_kwargs)) = [1, 3] \<and>
   sorted_wrt (<) (rangeC (projr (NLPModel_init 1 4 ''example'' example_kwargs))) \<and>
   sorted_wrt (<) (equalC (projr (NLPModel_init 1 4 ''example'' example_kwargs))) \<and>
   sorted_wrt (<) (upperC (projr (NLPModel_init 1 4 ''example'' example_kwargs))) \<and>
   sorted_wrt (<) (lowerB (projr (NLPModel_init 1 4 ''example'' example_kwargs)))"
proof -
  let ?M = "projr (NLPModel_init 1 4 ''example'' example_kwargs)"
  have r: "rangeC ?M = [1, 3]" by (simp add: init_eval example_kwargs_def)
  from classes_ascending [OF example_ok] r show ?thesis by simp
qed

subsection \<open>C9: bounds equal to a sentinel\<close>

text \<open>
  Claim C9: a constraint with \<open>Lcon[i] = Ucon[i] = 1e20\<close> is in \<^verbatim>\<open>lowerC\<close> and not in
  \<^verbatim>\<open>equalC\<close>; one with \<open>Lcon[i] = Ucon[i] = -1e20\<close> is in \<^verbatim>\<open>upperC\<close> and not in
  \<^verbatim>\<open>equalC\<close>. The strict comparisons with the sentinels come before the test of
  equality. The same holds for the variable bounds and \<^verbatim>\<open>lowerB\<close>, \<^verbatim>\<open>upperB\<close>,
  \<^verbatim>\<open>fixedB\<close>.
\<close>

theorem sentinel_bounds:
  assumes "NLPModel_init nv mv nm kwargs = Inr self"
  shows "(\<forall>i. 0 \<le> i \<and> i < mv \<longrightarrow>
           (getitem (Lcon self) i = Inr (FNum (10 ^ 20)) \<and>
            getitem (Ucon self) i = Inr (FNum (10 ^ 20))
              \<longrightarrow> i \<in> set (lowerC self) \<and> i \<notin> set (equalC self)) \<and>
           (getitem (Lcon self) i = Inr (FNum (- (10 ^ 20))) \<and>
            getitem (Ucon self) i = Inr (FNum (- (10 ^ 20)))
              \<longrightarrow> i \<in> set (upperC self) \<and> i \<notin> set (equalC self))) \<and>
         (\<forall>j. 0 \<le> j \<and> j < nv \<longrightarrow>
           (getitem (Lvar self) j = Inr (FNum (10 ^ 20)) \<and>
            getitem (Uvar self) j = Inr (FNum (10 ^ 20))
              \<longrightarrow> j \<in> set (lowerB self) \<and> j \<notin> set (fixedB self)) \<and>
           (getitem (Lvar self) j = Inr (FNum (- (10 ^ 20))) \<and>
            getitem (Uvar self) j = Inr (FNum (- (10 ^ 20)))
              \<longrightarrow> j \<in> set (upperB self) \<and> j \<notin> set (fixedB self)))"
proof -
  have g: "float_gt (FNum (10 ^ 20)) (FNum (- (10 ^ 20)))"
    "\<not> float_lt (FNum (10 ^ 20)) (FNum (10 ^ 20))"
    "\<not> float_gt (FNum (- (10 ^ 20))) (FNum (- (10 ^ 20)))"
    "float_lt (FNum (- (10 ^ 20))) (FNum (10 ^ 20))"
    by (simp_all add: float_gt_def)
  have c: "(getitem (Lcon self) i = Inr (FNum (10 ^ 20)) \<and>
            getitem (Ucon self) i = Inr (FNum (10 ^ 20))
              \<longrightarrow> i \<in> set (lowerC self) \<and> i \<notin> set (equalC self)) \<and>
           (getitem (Lcon self) i = Inr (FNum (- (10 ^ 20))) \<and>
            getitem (Ucon self) i = Inr (FNum (- (10 ^ 20)))
              \<longrightarrow> i \<in> set (upperC self) \<and> i \<notin> set (equalC self))"
    if "0 \<le> i \<and> i < mv" for i
  proof -
    from that have i: "0 \<le> i" "i < mv" by simp_all
    from classify_range_rule [OF init_Inr_loops(1) [OF assms] i]
    show ?thesis unfolding classes_simps using g by auto
  qed
  have b: "(getitem (Lvar self) j = Inr (FNum (10 ^ 20)) \<and>
            getitem (Uvar self) j = Inr (FNum (10 ^ 20))
              \<longrightarrow> j \<in> set (lowerB self) \<and> j \<notin> set (fixedB self)) \<and>
           (getitem (Lvar self) j = Inr (FNum (- (10 ^ 20))) \<and>
            getitem (Uvar self) j = Inr (FNum (- (10 ^ 20)))
              \<longrightarrow> j \<in> set (upperB self) \<and> j \<notin> set (fixedB self))"
    if "0 \<le> j \<and> j < nv" for j
  proof -
    from that have j: "0 \<le> j" "j < nv" by simp_all
    from classify_range_rule [OF init_Inr_loops(2) [OF assms] j]
    show ?thesis unfolding classes_simps using g by auto
  qed
  from c b show ?thesis by blast
qed

text \<open>
  An instance of C9: two constraints and two variables, each with bounds
  \<open>(1e20, 1e20)\<close> at index 0 and \<open>(-1e20, -1e20)\<close> at index 1.
\<close>

theorem sentinel_bounds_witness:
  "0 \<in> set (lowerC (projr (NLPModel_init 2 2 ''sentinel'' sentinel_kwargs))) \<and>
   0 \<notin> set (equalC (projr (NLPModel_init 2 2 ''sentinel'' sentinel_kwargs))) \<and>
   1 \<in> set (upperC (projr (NLPModel_init 2 2 ''sentinel'' sentinel_kwargs))) \<and>
   1 \<notin> set (equalC (projr (NLPModel_init 2 2 ''sentinel'' sentinel_kwargs))) \<and>
   0 \<in> set (lowerB (projr (NLPModel_init 2 2 ''sentinel'' sentinel_kwargs))) \<and>
   0 \<notin> set (fixedB (projr (NLPModel_init 2 2 ''sentinel'' sentinel_kwargs))) \<and>
   1 \<in> set (upperB (projr (NLPModel_init 2 2 ''sentinel'' sentinel_kwargs))) \<and>
   1 \<notin> set (fixedB (projr (NLPModel_init 2 2 ''sentinel'' sentinel_kwargs)))"
proof -
  let ?M = "projr (NLPModel_init 2 2 ''sentinel'' sentinel_kwargs)"
  note v = init_Inr_vectors [OF sentinel_ok]
  have vs: "Lcon ?M = [FNum (10 ^ 20), FNum (- (10 ^ 20))]"
    "Ucon ?M = [FNum (10 ^ 20), FNum (- (10 ^ 20))]"
    "Lvar ?M = [FNum (10 ^ 20), FNum (- (10 ^ 20))]"
    "Uvar ?M = [FNum (10 ^ 20), FNum (- (10 ^ 20))]"
    unfolding v by (simp_all add: sentinel_kwargs_def)
  note r = sentinel_bounds [OF sentinel_ok]
  note c = r [THEN conjunct1, rule_format] and b = r [THEN conjunct2, rule_format]
  have "0 \<in> set (lowerC ?M) \<and> 0 \<notin> set (equalC ?M)"
    using c [of 0] vs by (simp add: getitem_def py_len_def)
  moreover have "1 \<in> set (upperC ?M) \<and> 1 \<notin> set (equalC ?M)"
    using c [of 1] vs by (simp add: getitem_def py_len_def)
  moreover have "0 \<in> set (lowerB ?M) \<and> 0 \<notin> set (fixedB ?M)"
    using b [of 0] vs by (simp add: getitem_def py_len_def)
  moreover have "1 \<in> set (upperB ?M) \<and> 1 \<notin> set (fixedB ?M)"
    using b [of 1] vs by (simp add: getitem_def py_len_def)
  ultimately show ?thesis by simp
qed

subsection \<open>C10: construction is total on vectors of the right lengths\<close>

text \<open>
  Claim C10: when \<open>n\<close> and \<open>m\<close> are not negative and every bound vector that is given has
  the length \<open>n\<close> (for \<^verbatim>\<open>Lvar, Uvar\<close>) or \<open>m\<close> (for \<^verbatim>\<open>Lcon, Ucon\<close>), the construction
  returns a model and raises nothing, whatever the order of the two bounds of a pair. A
  pair with both values strictly between \<open>-1e20\<close> and \<open>1e20\<close> and not equal, inverted or
  not, is classified as a range (\<^verbatim>\<open>rangeC\<close>, resp. \<^verbatim>\<open>rangeB\<close>).
\<close>

theorem construction_total:
  assumes "0 \<le> nv" and "0 \<le> mv"
    and "case kwargs ''Lvar'' of None \<Rightarrow> True | Some v \<Rightarrow> py_len v = nv"
    and "case kwargs ''Uvar'' of None \<Rightarrow> True | Some v \<Rightarrow> py_len v = nv"
    and "case kwargs ''Lcon'' of None \<Rightarrow> True | Some v \<Rightarrow> py_len v = mv"
    and "case kwargs ''Ucon'' of None \<Rightarrow> True | Some v \<Rightarrow> py_len v = mv"
  shows "\<exists>self. NLPModel_init nv mv nm kwargs = Inr self \<and>
           (\<forall>i l u. 0 \<le> i \<and> i < mv \<and>
              getitem (Lcon self) i = Inr l \<and> getitem (Ucon self) i = Inr u \<and>
              float_gt l (FNum (- (10 ^ 20))) \<and> float_lt l (FNum (10 ^ 20)) \<and>
              float_gt u (FNum (- (10 ^ 20))) \<and> float_lt u (FNum (10 ^ 20)) \<and>
              \<not> float_eq l u
              \<longrightarrow> i \<in> set (rangeC self)) \<and>
           (\<forall>j l u. 0 \<le> j \<and> j < nv \<and>
              getitem (Lvar self) j = Inr l \<and> getitem (Uvar self) j = Inr u \<and>
              float_gt l (FNum (- (10 ^ 20))) \<and> float_lt l (FNum (10 ^ 20)) \<and>
              float_gt u (FNum (- (10 ^ 20))) \<and> float_lt u (FNum (10 ^ 20)) \<and>
              \<not> float_eq l u
              \<longrightarrow> j \<in> set (rangeB self))"
proof -
  from init_total [OF assms] obtain self where
    s: "NLPModel_init nv mv nm kwargs = Inr self" ..
  have c: "i \<in> set (rangeC self)"
    if "0 \<le> i \<and> i < mv \<and>
        getitem (Lcon self) i = Inr l \<and> getitem (Ucon self) i = Inr u \<and>
        float_gt l (FNum (- (10 ^ 20))) \<and> float_lt l (FNum (10 ^ 20)) \<and>
        float_gt u (FNum (- (10 ^ 20))) \<and> float_lt u (FNum (10 ^ 20)) \<and>
        \<not> float_eq l u" for i l u
  proof -
    from that have i: "0 \<le> i" "i < mv" by simp_all
    from classify_range_rule [OF init_Inr_loops(1) [OF s] i]
    show ?thesis unfolding classes_simps using that by auto
  qed
  have b: "j \<in> set (rangeB self)"
    if "0 \<le> j \<and> j < nv \<and>
        getitem (Lvar self) j = Inr l \<and> getitem (Uvar self) j = Inr u \<and>
        float_gt l (FNum (- (10 ^ 20))) \<and> float_lt l (FNum (10 ^ 20)) \<and>
        float_gt u (FNum (- (10 ^ 20))) \<and> float_lt u (FNum (10 ^ 20)) \<and>
        \<not> float_eq l u" for j l u
  proof -
    from that have j: "0 \<le> j" "j < nv" by simp_all
    from classify_range_rule [OF init_Inr_loops(2) [OF s] j]
    show ?thesis unfolding classes_simps using that by auto
  qed
  from s c b show ?thesis by blast
qed

text \<open>
  An instance of C10 on inverted pairs: the constraint bounds \<open>(10, 0)\<close> and the variable
  bounds \<open>(3, -3)\<close> are accepted and classified as ranges.
\<close>

theorem construction_total_witness:
  "NLPModel_init 1 1 ''inverted'' inverted_kwargs =
     Inr (projr (NLPModel_init 1 1 ''inverted'' inverted_kwargs)) \<and>
   Lcon (projr (NLPModel_init 1 1 ''inverted'' inverted_kwargs)) = [FNum 10] \<and>
   Ucon (projr (NLPModel_init 1 1 ''inverted'' inverted_kwargs)) = [FNum 0] \<and>
   0 \<in> set (rangeC (projr (NLPModel_init 1 1 ''inverted'' inverted_kwargs))) \<and>
   Lvar (projr (NLPModel_init 1 1 ''inverted'' inverted_kwargs)) = [FNum 3] \<and>
   Uvar (projr (NLPModel_init 1 1 ''inverted'' inverted_kwargs)) = [FNum (- 3)] \<and>
   0 \<in> set (rangeB (projr (NLPModel_init 1 1 ''inverted'' inverted_kwargs)))"
proof -
  let ?M = "projr (NLPModel_init 1 1 ''inverted'' inverted_kwargs)"
  have h: "(0::int) \<le> 1" by simp
  from construction_total [OF h h inverted_ok_len, of "''inverted''"]
  obtain self where s: "NLPModel_init 1 1 ''inverted'' inverted_kwargs = Inr self"
    and c: "\<And>i l u. 0 \<le> i \<and> i < 1 \<and>
              getitem (Lcon self) i = Inr l \<and> getitem (Ucon self) i = Inr u \<and>
              float_gt l (FNum (- (10 ^ 20))) \<and> float_lt l (FNum (10 ^ 20)) \<and>
              float_gt u (FNum (- (10 ^ 20))) \<and> float_lt u (FNum (10 ^ 20)) \<and>
              \<not> float_eq l u
              \<Longrightarrow> i \<in> set (rangeC self)"
    and b: "\<And>j l u. 0 \<le> j \<and> j < 1 \<and>
              getitem (Lvar self) j = Inr l \<and> getitem (Uvar self) j = Inr u \<and>
              float_gt l (FNum (- (10 ^ 20))) \<and> float_lt l (FNum (10 ^ 20)) \<and>
              float_gt u (FNum (- (10 ^ 20))) \<and> float_lt u (FNum (10 ^ 20)) \<and>
              \<not> float_eq l u
              \<Longrightarrow> j \<in> set (rangeB self)"
    by blast
  have M: "?M = self" by (simp add: s)
  note v = init_Inr_vectors [OF s]
  have vs: "Lcon self = [FNum 10]" "Ucon self = [FNum 0]" "Lvar self = [FNum 3]"
    "Uvar self = [FNum (- 3)]"
    unfolding v by (simp_all add: inverted_kwargs_def)
  have rc: "0 \<in> set (rangeC self)"
    by (rule c [of 0 "FNum 10" "FNum 0"])
       (simp add: vs getitem_def py_len_def float_gt_def float_eq_def)
  have rb: "0 \<in> set (rangeB self)"
    by (rule b [of 0 "FNum 3" "FNum (- 3)"])
       (simp add: vs getitem_def py_len_def float_gt_def float_eq_def)
  show ?thesis unfolding M using s vs rc rb by simp
qed

end
